theory Spec2Isabelle
  imports Main "HOL-Library.Word"
begin

section \<open>The diagnostics bridge endpoint\<close>

text \<open>
  This theory embeds \<^verbatim>\<open>BridgeHandler.Bridge\<close> of \<^verbatim>\<open>api/bridge_handler.go\<close>: the
  handshake, the per-node writer goroutine and the reverse-channel read loop.
  Every goroutine is modelled by the function of its loop body (one iteration) and by
  the loop built from it. A channel send that cannot complete parks the goroutine; a
  send on a closed channel panics. Both are results of the model.
  Calls of \<^verbatim>\<open>log.Printf\<close> have no effect on the state and are left out.
\<close>

subsection \<open>Data\<close>

text \<open>
  \<^verbatim>\<open>erigon_node.Error\<close> and \<^verbatim>\<open>erigon_node.Response\<close>. The handler reads and writes the
  fields \<^verbatim>\<open>Id\<close>, \<^verbatim>\<open>Error\<close>, \<^verbatim>\<open>Last\<close> and \<^verbatim>\<open>Message\<close>; \<open>Chunk\<close> is the payload of the
  response object, which the handler never inspects.
\<close>

record Error =
  Message :: string

record Response =
  Id :: string
  Chunk :: "string option"
  Error :: "Error option"
  Last :: bool

text \<open>
  The JSON-RPC request carried by a node request (\<^verbatim>\<open>request.Request\<close>); its field
  \<^verbatim>\<open>Id\<close> is named \<open>ReqId\<close> here, since \<open>Id\<close> is the field of a response.
\<close>

record RpcRequest =
  ReqId :: string
  Method :: string
  Params :: string

text \<open>
  \<^verbatim>\<open>erigon_node.NodeRequest\<close>: the request, the channel of responses (a reference into
  the heap of sinks below) and the retry counter.
\<close>

record NodeRequest =
  Request :: RpcRequest
  Responses :: nat
  Retries :: int

text \<open>
  A response sink is a Go channel of responses, read by the operator side. \<open>delivered\<close>
  lists the responses whose send has completed, oldest first. \<open>room\<close> is the number of
  sends that can complete now: the free slots of the buffer plus the receivers waiting.
  A send with no room blocks.
\<close>

record Sink =
  delivered :: "Response list"
  room :: nat

text \<open>
  \<^verbatim>\<open>sessions.NodeInfo\<close>: \<^verbatim>\<open>node.Id\<close> (here \<open>NodeId\<close>), which the handler reads, and the
  metadata the node record keeps (the version and the client-declared name). The type is
  declared outside the handler's file.
\<close>

record NodeInfo =
  NodeId :: string
  NodeName :: string
  NodeVersion :: string

text \<open>
  The node session, declared outside the handler's file: the node record, the attached
  session PINs, the connection state, the remote address, and the request channel
  \<^verbatim>\<open>RequestCh\<close>, which the writer reads, with its capacity and whether it has been closed.
\<close>

record NodeSession =
  Node :: NodeInfo
  SessionPins :: "string list"
  Connected :: bool
  RemoteAddr :: string
  RequestCh :: "NodeRequest list"
  RequestChCap :: nat
  RequestChClosed :: bool

text \<open>
  \<^verbatim>\<open>http.ResponseWriter\<close> with \<^verbatim>\<open>http.Flusher\<close>: the status line that went out (if
  any), the writes to the response body, and the number of flushes.
\<close>

record ResponseWriter =
  status :: "nat option"
  body :: "string list"
  flushes :: nat

text \<open>
  The state one call of \<^verbatim>\<open>Bridge\<close> works on: the session cache, the local
  \<^verbatim>\<open>requestMap\<close>, the heap of response sinks, the response writer \<^verbatim>\<open>w\<close>, the number
  of calls of \<^verbatim>\<open>w.Write\<close> made by the writers, and the node ids whose writer goroutine has
  been spawned.
\<close>

record BridgeState =
  cache :: "string \<rightharpoonup> NodeSession"
  requestMap :: "string \<rightharpoonup> NodeRequest"
  sinks :: "nat \<Rightarrow> Sink"
  w :: ResponseWriter
  attempts :: nat
  writers :: "string list"

text \<open>
  What a goroutine does at a point of its code: it goes on with a new state, it is parked
  at a blocking channel operation in the state given, or it panics.
\<close>

datatype 'a progress = Proceed 'a | Parked 'a | Panicked

subsection \<open>Channel send\<close>

text \<open>\<^verbatim>\<open>request.Responses <- v\<close>: completes if the sink has room, blocks otherwise.\<close>

definition send :: "nat \<Rightarrow> Response \<Rightarrow> BridgeState \<Rightarrow> BridgeState progress" where
  "send ch v st =
     (if 0 < room (sinks st ch)
      then Proceed (st\<lparr>sinks := (sinks st)
             (ch := (sinks st ch)\<lparr>delivered := delivered (sinks st ch) @ [v],
                                   room := room (sinks st ch) - 1\<rparr>)\<rparr>)
      else Parked st)"

subsection \<open>Reverse channel: the read loop\<close>

text \<open>
  The result of one call of \<^verbatim>\<open>json.NewDecoder(r.Body).Decode(&response)\<close>: an error
  (malformed JSON, end of the body, a closed or cancelled connection) or a response.
\<close>

datatype Decoded = DecodeError | Decoded Response

text \<open>Lines 143 to 145: a response that bears an error is made terminal.\<close>

definition promote :: "Response \<Rightarrow> Response" where
  "promote response = (if Error response \<noteq> None then response\<lparr>Last := True\<rparr> else response)"

text \<open>
  One iteration of the loop at lines 127 to 154. A decode error and an unknown id go on
  to the next iteration; an error-bearing response is made terminal; the response is
  sent to the sink of its request; a terminal response deletes the entry.
\<close>

definition reader_body :: "Decoded \<Rightarrow> BridgeState \<Rightarrow> BridgeState progress" where
  "reader_body d st =
     (case d of
        DecodeError \<Rightarrow> Proceed st
      | Decoded response0 \<Rightarrow>
          (case requestMap st (Id response0) of
             None \<Rightarrow> Proceed st
           | Some request \<Rightarrow>
               (let response = promote response0
                in case send (Responses request) response st of
                     Proceed st1 \<Rightarrow>
                       Proceed (if Last response
                                then st1\<lparr>requestMap := (requestMap st1)(Id response := None)\<rparr>
                                else st1)
                   | Parked st1 \<Rightarrow> Parked st1
                   | Panicked \<Rightarrow> Panicked)))"

text \<open>
  The loop over the results of the successive decodes. \<open>reader_run\<close> is the state
  after the loop has gone through the decodes given, or the state it is parked in.
\<close>

fun reader_run :: "Decoded list \<Rightarrow> BridgeState \<Rightarrow> BridgeState progress" where
  "reader_run [] st = Proceed st"
| "reader_run (d # ds) st =
     (case reader_body d st of
        Proceed st1 \<Rightarrow> reader_run ds st1
      | Parked st1 \<Rightarrow> Parked st1
      | Panicked \<Rightarrow> Panicked)"

text \<open>
  The loop as the handler runs it. The list holds what the decodes return while the body
  lasts. After the body has ended (or the remote has closed, or the context has been
  cancelled) every further decode returns an error, and the loop goes on to the next
  iteration. The loop has no \<^verbatim>\<open>break\<close> and no \<^verbatim>\<open>return\<close>; the value \<open>None\<close> is a loop
  that does not return.
\<close>

partial_function (option) reader :: "Decoded list \<Rightarrow> BridgeState \<Rightarrow> BridgeState option" where
  "reader ds st =
     (case ds of
        [] \<Rightarrow> reader [] st
      | d # rest \<Rightarrow>
          (case reader_body d st of
             Proceed st1 \<Rightarrow> reader rest st1
           | Parked st1 \<Rightarrow> None
           | Panicked \<Rightarrow> None))"




subsection \<open>Forward channel: the per-node writer\<close>

text \<open>
  What the writer goroutine gets from outside the handler: \<^verbatim>\<open>json.Marshal\<close> of a request
  (\<open>Inl\<close> the error message, \<open>Inr\<close> the bytes), and the transport under \<^verbatim>\<open>w.Write\<close>: for
  the n-th call of \<^verbatim>\<open>w.Write\<close> on the connection, \<open>None\<close> if it succeeds and the error
  message if it fails.
\<close>

record Env =
  marshal :: "RpcRequest \<Rightarrow> string + string"
  transport :: "nat \<Rightarrow> string option"

text \<open>
  The response writer of \<^verbatim>\<open>net/http\<close>. The first status line wins: a later
  \<^verbatim>\<open>WriteHeader\<close> is ignored. A write or a flush with no status line yet sends 200 first.
\<close>

definition WriteHeader :: "nat \<Rightarrow> ResponseWriter \<Rightarrow> ResponseWriter" where
  "WriteHeader code rw = (if status rw = None then rw\<lparr>status := Some code\<rparr> else rw)"

definition Write :: "string \<Rightarrow> ResponseWriter \<Rightarrow> ResponseWriter" where
  "Write bytes rw = (WriteHeader 200 rw)\<lparr>body := body rw @ [bytes]\<rparr>"

definition Flush :: "ResponseWriter \<Rightarrow> ResponseWriter" where
  "Flush rw = (WriteHeader 200 rw)\<lparr>flushes := flushes rw + 1\<rparr>"

text \<open>
  Lines 107 to 110: the \<^verbatim>\<open>select\<close> with an empty \<^verbatim>\<open>default\<close> branch. The request goes to
  the tail of \<^verbatim>\<open>RequestCh\<close> of the session \<open>nid\<close> if the channel has a free slot, and is
  dropped if not. A send on a closed channel panics. The writer holds a pointer to a
  session of the cache, so the case \<open>None\<close> stands for a nil pointer.
\<close>

definition try_enqueue :: "string \<Rightarrow> NodeRequest \<Rightarrow> BridgeState \<Rightarrow> BridgeState progress" where
  "try_enqueue nid request st =
     (case cache st nid of
        None \<Rightarrow> Panicked
      | Some ns \<Rightarrow>
          if RequestChClosed ns then Panicked
          else if length (RequestCh ns) < RequestChCap ns
          then Proceed (st\<lparr>cache := (cache st)(nid \<mapsto> ns\<lparr>RequestCh := RequestCh ns @ [request]\<rparr>)\<rparr>)
          else Proceed st)"

text \<open>
  Lines 80 to 122: the body of the writer's loop for a request taken from \<^verbatim>\<open>RequestCh\<close>.
  The entry is put into \<^verbatim>\<open>requestMap\<close> before the write and deleted again when the
  write fails. \<^verbatim>\<open>request.Retries++\<close> changes the request the writer holds, which is
  the one it puts back on the channel.
\<close>

definition writer_body :: "Env \<Rightarrow> string \<Rightarrow> NodeRequest \<Rightarrow> BridgeState \<Rightarrow> BridgeState progress" where
  "writer_body env nid request st =
     (let rpcRequest = Request request in
      case marshal env rpcRequest of
        Inl err \<Rightarrow>
          send (Responses request)
            \<lparr>Id = [], Chunk = None,
             Error = Some \<lparr>Message = ''Failed to marshal request: '' @ err\<rparr>,
             Last = True\<rparr> st
      | Inr bytes \<Rightarrow>
          (let st1 = st\<lparr>requestMap := (requestMap st)(ReqId rpcRequest \<mapsto> request)\<rparr>;
               st2 = st1\<lparr>attempts := attempts st1 + 1\<rparr>
           in case transport env (attempts st1) of
                Some err \<Rightarrow>
                  (let st3 = st2\<lparr>requestMap := (requestMap st2)(ReqId rpcRequest := None)\<rparr>;
                       request1 = request\<lparr>Retries := Retries request + 1\<rparr>
                   in if Retries request1 < 15
                      then try_enqueue nid request1 st3
                      else send (Responses request1)
                             \<lparr>Id = [], Chunk = None,
                              Error = Some \<lparr>Message = ''Failed to write metrics request: '' @ err\<rparr>,
                              Last = True\<rparr> st3)
              | None \<Rightarrow> Proceed (st2\<lparr>w := Flush (Write bytes (w st2))\<rparr>)))"

text \<open>
  Modelled from the spec: \<^verbatim>\<open>NodeSession.Disconnect\<close>, which is not in the handler's
  file, marks the session disconnected. It is called with no argument, and \<^verbatim>\<open>requestMap\<close>
  is a local variable of \<^verbatim>\<open>Bridge\<close>, so it cannot reach the entries of that map.
\<close>

definition Disconnect :: "NodeSession \<Rightarrow> NodeSession" where
  "Disconnect ns = ns\<lparr>Connected := False\<rparr>"

text \<open>
  The measure of the writer's loop: every queued request counts one more than the
  retries it has left.
\<close>

definition weight :: "NodeRequest \<Rightarrow> nat" where
  "weight r = 1 + nat (15 - Retries r)"

definition pending :: "string \<Rightarrow> BridgeState \<Rightarrow> nat" where
  "pending nid st =
     (case cache st nid of None \<Rightarrow> 0 | Some ns \<Rightarrow> sum_list (map weight (RequestCh ns)))"

text \<open>
  Lines 76 to 124: the goroutine of the node \<open>nid\<close>. \<^verbatim>\<open>range\<close> takes the head of the
  channel; on an empty channel it waits, and it ends only when the channel has been
  closed, which is when the deferred \<^verbatim>\<open>Disconnect\<close> runs. The loop is run here with no
  other goroutine adding to the channel meanwhile.
\<close>

function writer :: "Env \<Rightarrow> string \<Rightarrow> BridgeState \<Rightarrow> BridgeState progress" where
  "writer env nid st =
     (case cache st nid of
        None \<Rightarrow> Panicked
      | Some ns \<Rightarrow>
          (case RequestCh ns of
             [] \<Rightarrow> if RequestChClosed ns
                   then Proceed (st\<lparr>cache := (cache st)(nid \<mapsto> Disconnect ns)\<rparr>)
                   else Parked st
           | request # rest \<Rightarrow>
               (case writer_body env nid request
                       (st\<lparr>cache := (cache st)(nid \<mapsto> ns\<lparr>RequestCh := rest\<rparr>)\<rparr>) of
                  Proceed st1 \<Rightarrow> writer env nid st1
                | Parked st1 \<Rightarrow> Parked st1
                | Panicked \<Rightarrow> Panicked)))"
  by pat_completeness auto
termination
proof (relation "measure (\<lambda>(env, nid, st). pending nid st)")
  show "wf (measure (\<lambda>(env, nid, st). pending nid st))" by simp
next
  fix env :: Env and nid st ns request rest st1
  assume c: "cache st nid = Some ns" and q: "RequestCh ns = request # rest"
    and b: "writer_body env nid request
              (st\<lparr>cache := (cache st)(nid \<mapsto> ns\<lparr>RequestCh := rest\<rparr>)\<rparr>) = Proceed st1"
  have "pending nid st1 < pending nid st"
    using c q b
    by (auto simp: writer_body_def try_enqueue_def send_def pending_def weight_def Let_def
             split: sum.splits option.splits if_splits)
  then show "((env, nid, st1), (env, nid, st)) \<in> measure (\<lambda>(env, nid, st). pending nid st)"
    by simp
qed

subsection \<open>Handshake\<close>

text \<open>
  The object decoded at line 47. \<^verbatim>\<open>Nodes\<close> is a slice of pointers, so an element may be
  nil (\<open>None\<close>).
\<close>

record ConnectionInfo =
  Version :: "64 word"
  Sessions :: "string list"
  Nodes :: "NodeInfo option list"

text \<open>\<^verbatim>\<open>diagnostics.AsBadRequestErr\<close>: the error of kind bad-request with its message.\<close>

datatype ApiError = BadRequestErr string

text \<open>
  Modelled from the spec: \<^verbatim>\<open>internal.EncodeError\<close>, which is not in the handler's file,
  answers with the status of the error's kind (400 for bad-request) and writes the
  message to the response body.
\<close>

definition EncodeError :: "ApiError \<Rightarrow> ResponseWriter \<Rightarrow> ResponseWriter" where
  "EncodeError e rw = (case e of BadRequestErr msg \<Rightarrow> Write msg (WriteHeader 400 rw))"

text \<open>
  Modelled from the spec: \<^verbatim>\<open>CacheService.FindNodeSession\<close>, which is not in the handler's
  file, looks a node session up by the node id.
\<close>

definition FindNodeSession :: "(string \<rightharpoonup> NodeSession) \<Rightarrow> string \<Rightarrow> NodeSession option" where
  "FindNodeSession c nid = c nid"

text \<open>
  Modelled from the spec: \<^verbatim>\<open>CacheService.CreateNodeSession\<close>, which is not in the
  handler's file, fails with bad-node on an empty id; otherwise it records the node-info
  in a new session under the node id, disconnected and with an empty request channel.
\<close>

definition CreateNodeSession ::
  "nat \<Rightarrow> (string \<rightharpoonup> NodeSession) \<Rightarrow> NodeInfo \<Rightarrow> string + (string \<rightharpoonup> NodeSession)" where
  "CreateNodeSession qcap c node =
     (if NodeId node = [] then Inl ''bad-node''
      else Inr (c(NodeId node \<mapsto>
             \<lparr>Node = node, SessionPins = [], Connected = False, RemoteAddr = [],
              RequestCh = [], RequestChCap = qcap, RequestChClosed = False\<rparr>)))"

text \<open>
  Modelled from the spec: \<^verbatim>\<open>NodeSession.AttachSessions\<close>, which is not in the handler's
  file, is the idempotent union of the ids given onto the attached sessions.
\<close>

definition AttachSessions :: "string list \<Rightarrow> NodeSession \<Rightarrow> NodeSession" where
  "AttachSessions ids ns = ns\<lparr>SessionPins := List.union (SessionPins ns) ids\<rparr>"

text \<open>
  Modelled from the spec: \<^verbatim>\<open>NodeSession.Connect\<close>, which is not in the handler's file,
  marks the session connected and records the remote address.
\<close>

definition Connect :: "string \<Rightarrow> NodeSession \<Rightarrow> NodeSession" where
  "Connect remoteAddr ns = ns\<lparr>Connected := True, RemoteAddr := remoteAddr\<rparr>"

text \<open>
  How the part of the handler before the read loop ends: it has returned (after
  \<^verbatim>\<open>EncodeError\<close>), it has connected every node and goes on to the read loop, or it has
  panicked on a nil node.
\<close>

datatype HandshakeResult = Returned BridgeState | Established BridgeState | NilNode

text \<open>
  Lines 58 to 125: the loop over the declared nodes. A known node keeps its session; an
  unknown one gets a new session. The session is attached to the declared sessions,
  connected, and its writer goroutine is spawned. \<open>qcap\<close> is the capacity a new
  \<^verbatim>\<open>RequestCh\<close> is made with. The message of the error at line 66 is the text built by
  \<^verbatim>\<open>errors.Errorf\<close>; how that function renders the verb \<^verbatim>\<open>%w\<close> is not modelled, and no
  property below reads the message.
\<close>

fun connect_nodes ::
  "nat \<Rightarrow> string list \<Rightarrow> string \<Rightarrow> NodeInfo option list \<Rightarrow> BridgeState \<Rightarrow> HandshakeResult" where
  "connect_nodes qcap ss addr [] st = Established st"
| "connect_nodes qcap ss addr (None # rest) st = NilNode"
| "connect_nodes qcap ss addr (Some node # rest) st =
     (case (case FindNodeSession (cache st) (NodeId node) of
              Some nodeSession \<Rightarrow> Inr (cache st)
            | None \<Rightarrow> CreateNodeSession qcap (cache st) node) of
        Inl err \<Rightarrow>
          Returned (st\<lparr>w := EncodeError
                            (BadRequestErr (''Error creating node session: '' @ err)) (w st)\<rparr>)
      | Inr c1 \<Rightarrow>
          connect_nodes qcap ss addr rest
            (st\<lparr>cache := c1(NodeId node :=
                            map_option (Connect addr \<circ> AttachSessions ss) (c1 (NodeId node))),
                writers := writers st @ [NodeId node]\<rparr>))"

text \<open>
  Lines 38 to 125. The status 200 is written and flushed before the handshake is decoded.
  \<open>hs\<close> is the result of the decode at line 47: \<open>Inl\<close> the error of a malformed
  handshake, \<open>Inr\<close> the connection info. \<^verbatim>\<open>requestMap\<close> starts empty.
\<close>

definition handshake ::
  "nat \<Rightarrow> string \<Rightarrow> string + ConnectionInfo \<Rightarrow> BridgeState \<Rightarrow> HandshakeResult" where
  "handshake qcap addr hs st0 =
     (let st = st0\<lparr>w := Flush (WriteHeader 200 (w st0))\<rparr>
      in case hs of
           Inl err \<Rightarrow>
             Returned (st\<lparr>w := EncodeError
                               (BadRequestErr (''Error reading connection info: '' @ err)) (w st)\<rparr>)
         | Inr connectionInfo \<Rightarrow>
             connect_nodes qcap (Sessions connectionInfo) addr (Nodes connectionInfo)
               (st\<lparr>requestMap := Map.empty\<rparr>))"

text \<open>
  The handler: the handshake, then the read loop. \<open>None\<close> is a call that does not
  return.
\<close>

definition Bridge ::
  "nat \<Rightarrow> string \<Rightarrow> string + ConnectionInfo \<Rightarrow> Decoded list \<Rightarrow> BridgeState
   \<Rightarrow> HandshakeResult option" where
  "Bridge qcap addr hs ds st0 =
     (case handshake qcap addr hs st0 of
        Established st \<Rightarrow> map_option Returned (reader ds st)
      | Returned st \<Rightarrow> Some (Returned st)
      | NilNode \<Rightarrow> Some NilNode)"

subsection \<open>Example states\<close>

text \<open>
  A connection with one node \<open>nA\<close> and two requests in flight, \<open>q1\<close> with sink 1 and
  \<open>q2\<close> with sink 2; every sink is empty and has room for two responses.
\<close>

definition ex_request :: "string \<Rightarrow> nat \<Rightarrow> NodeRequest" where
  "ex_request rid ch =
     \<lparr>Request = \<lparr>ReqId = rid, Method = ''cmd_line'', Params = ''{}''\<rparr>,
      Responses = ch, Retries = 0\<rparr>"

definition ex_session :: NodeSession where
  "ex_session =
     \<lparr>Node = \<lparr>NodeId = ''nA'', NodeName = ''erigon'', NodeVersion = ''2.50''\<rparr>,
      SessionPins = [''10000001''], Connected = True, RemoteAddr = ''10.0.0.1:4000'',
      RequestCh = [], RequestChCap = 16, RequestChClosed = False\<rparr>"

definition ex_state :: BridgeState where
  "ex_state =
     \<lparr>cache = [''nA'' \<mapsto> ex_session],
      requestMap = [''q1'' \<mapsto> ex_request ''q1'' 1, ''q2'' \<mapsto> ex_request ''q2'' 2],
      sinks = (\<lambda>ch. \<lparr>delivered = [], room = 2\<rparr>),
      w = \<lparr>status = Some 200, body = [], flushes = 1\<rparr>,
      attempts = 0, writers = [''nA'']\<rparr>"

definition ex_chunk :: "string \<Rightarrow> bool \<Rightarrow> Response" where
  "ex_chunk rid l = \<lparr>Id = rid, Chunk = Some ''[]'', Error = None, Last = l\<rparr>"

definition ex_error_chunk :: "string \<Rightarrow> Response" where
  "ex_error_chunk rid =
     \<lparr>Id = rid, Chunk = None, Error = Some \<lparr>Message = ''boom''\<rparr>, Last = False\<rparr>"

text \<open>
  A marshaller that succeeds or fails on every request, over a transport whose writes
  all fail.
\<close>

definition ex_env :: "bool \<Rightarrow> Env" where
  "ex_env ok =
     \<lparr>marshal = (\<lambda>q. if ok then Inr (ReqId q) else Inl ''unsupported type''),
      transport = (\<lambda>n. Some ''broken pipe'')\<rparr>"

text \<open>
  The writer of \<open>nA\<close> holds a request \<open>q4\<close> it has taken from the channel; meanwhile
  \<open>q3\<close> has been put on the channel, which has capacity 1 and is full again.
\<close>

definition ex_full_state :: BridgeState where
  "ex_full_state =
     ex_state\<lparr>cache := [''nA'' \<mapsto> ex_session\<lparr>RequestCh := [ex_request ''q3'' 3],
                                               RequestChCap := 1\<rparr>],
              requestMap := Map.empty\<rparr>"

text \<open>The response writer as the server hands it to the handler.\<close>

definition fresh_writer :: ResponseWriter where
  "fresh_writer = \<lparr>status = None, body = [], flushes = 0\<rparr>"

text \<open>A handshake that declares the node \<open>nA\<close> again, with a newer version.\<close>

definition ex_redeclared :: ConnectionInfo where
  "ex_redeclared =
     \<lparr>Version = 1, Sessions = [''10000001''],
      Nodes = [Some \<lparr>NodeId = ''nA'', NodeName = ''erigon'', NodeVersion = ''2.51''\<rparr>]\<rparr>"


text \<open>
  The operator of \<open>q1\<close> does not read: sink 1 holds two responses and has no room. The
  companion sends a response for \<open>q1\<close> and then the last response for \<open>q2\<close>.
\<close>

definition ex_blocked_state :: BridgeState where
  "ex_blocked_state =
     ex_state\<lparr>sinks := (sinks ex_state)
       (1 := \<lparr>delivered = [ex_chunk ''q1'' False, ex_chunk ''q1'' False], room = 0\<rparr>)\<rparr>"

definition ex_two :: "Decoded list" where
  "ex_two = [Decoded (ex_chunk ''q1'' False), Decoded (ex_chunk ''q2'' True)]"


section \<open>Properties\<close>

subsection \<open>The read loop\<close>

text \<open>
  Claim C8. A response whose id has no entry in \<^verbatim>\<open>requestMap\<close> changes nothing: the
  iteration ends with the state it started in, so the map is the same and no sink has
  received the response.
\<close>

theorem unknown_id_discarded:
  "requestMap st (Id response) = None \<Longrightarrow> reader_body (Decoded response) st = Proceed st"
  by (simp add: reader_body_def)

theorem unknown_id_discarded_witness:
  "requestMap ex_state (Id (ex_chunk ''q9'' True)) = None
   \<and> reader_body (Decoded (ex_chunk ''q9'' True)) ex_state = Proceed ex_state"
proof -
  have h: "requestMap ex_state (Id (ex_chunk ''q9'' True)) = None"
    by (simp add: ex_state_def ex_chunk_def)
  show ?thesis using h unknown_id_discarded [OF h] by simp
qed

text \<open>
  Claim C6. A response that bears an error and whose id has an entry is delivered to the
  sink of that entry with \<open>Last\<close> set, whatever \<open>Last\<close> the companion sent, and the entry
  is deleted. The send completes when the sink has room.
\<close>

theorem error_chunk_terminal:
  assumes "requestMap st (Id response) = Some request"
    and "Error response \<noteq> None"
    and "0 < room (sinks st (Responses request))"
  shows "\<exists>st1. reader_body (Decoded response) st = Proceed st1
           \<and> delivered (sinks st1 (Responses request))
               = delivered (sinks st (Responses request)) @ [response\<lparr>Last := True\<rparr>]
           \<and> requestMap st1 = (requestMap st)(Id response := None)"
  using assms by (simp add: reader_body_def promote_def send_def)

theorem error_chunk_terminal_witness:
  "\<exists>st1. reader_body (Decoded (ex_error_chunk ''q1'')) ex_state = Proceed st1
           \<and> delivered (sinks st1 1) = [(ex_error_chunk ''q1'')\<lparr>Last := True\<rparr>]
           \<and> requestMap st1 ''q1'' = None \<and> requestMap st1 ''q2'' = Some (ex_request ''q2'' 2)"
proof -
  have a: "requestMap ex_state (Id (ex_error_chunk ''q1'')) = Some (ex_request ''q1'' 1)"
    by (simp add: ex_state_def ex_error_chunk_def)
  have b: "Error (ex_error_chunk ''q1'') \<noteq> None" by (simp add: ex_error_chunk_def)
  have c: "0 < room (sinks ex_state (Responses (ex_request ''q1'' 1)))"
    by (simp add: ex_state_def)
  from error_chunk_terminal [OF a b c] show ?thesis
    by (auto simp: ex_state_def ex_request_def ex_error_chunk_def)
qed

subsection \<open>Teardown\<close>

lemma reader_Some_False:
  assumes "reader ds st = Some y"
  shows False
proof (rule reader.raw_induct [where P = "\<lambda>_ _ _. False", OF _ assms])
  fix f ds st y
  assume IH: "\<And>ds st y. f ds st = Some y \<Longrightarrow> False"
    and step: "(case ds of
                  [] \<Rightarrow> f [] st
                | d # rest \<Rightarrow>
                    (case reader_body d st of
                       Proceed st1 \<Rightarrow> f rest st1
                     | Parked st1 \<Rightarrow> None
                     | Panicked \<Rightarrow> None)) = Some (y::BridgeState)"
  from step IH show False
    by (auto split: list.splits progress.splits)
qed

lemma reader_body_cache: "reader_body d st = Proceed st1 \<Longrightarrow> cache st1 = cache st"
  by (auto simp: reader_body_def send_def Let_def
           split: Decoded.splits option.splits if_splits)

lemma reader_body_parked: "reader_body d st = Parked st1 \<Longrightarrow> st1 = st"
  by (auto simp: reader_body_def send_def Let_def
           split: Decoded.splits option.splits if_splits)

lemma reader_run_cache: "reader_run ds st = Proceed st1 \<Longrightarrow> cache st1 = cache st"
  by (induction ds arbitrary: st) (auto split: progress.splits dest: reader_body_cache)

lemma reader_run_cache_parked: "reader_run ds st = Parked st1 \<Longrightarrow> cache st1 = cache st"
  by (induction ds arbitrary: st)
     (auto split: progress.splits dest: reader_body_cache reader_body_parked)

lemma writer_body_open:
  assumes "writer_body env nid request st = Proceed st1"
    and "cache st nid = Some ns"
    and "\<not> RequestChClosed ns"
  shows "\<exists>ns1. cache st1 nid = Some ns1 \<and> \<not> RequestChClosed ns1"
  using assms
  by (auto simp: writer_body_def try_enqueue_def send_def Let_def
           split: sum.splits option.splits if_splits)

lemma writer_open_never_ends:
  "cache st nid = Some ns \<Longrightarrow> \<not> RequestChClosed ns \<Longrightarrow> writer env nid st \<noteq> Proceed st2"
proof (induction env nid st arbitrary: ns rule: writer.induct)
  case (1 env nid st)
  show ?case
  proof (cases "RequestCh ns")
    case Nil
    with 1 show ?thesis by simp
  next
    case (Cons request rest)
    let ?st = "st\<lparr>cache := (cache st)(nid \<mapsto> ns\<lparr>RequestCh := rest\<rparr>)\<rparr>"
    show ?thesis
    proof (cases "writer_body env nid request ?st")
      case (Proceed st1)
      from writer_body_open [OF Proceed] "1.prems"
      obtain ns1 where n: "cache st1 nid = Some ns1" "\<not> RequestChClosed ns1" by auto
      from "1.IH" [OF "1.prems"(1) Cons Proceed n]
      have "writer env nid st1 \<noteq> Proceed st2" .
      with "1.prems" Cons Proceed show ?thesis by simp
    next
      case (Parked st1)
      with "1.prems" Cons show ?thesis by simp
    next
      case Panicked
      with "1.prems" Cons show ?thesis by simp
    qed
  qed
qed

text \<open>
  Claim C1. The claim asks that the read loop ends when the body ends, and that every
  connected node is disconnected. In the code the read loop does not return, whatever
  the decodes give and however soon the body ends; as far as it gets, it leaves the node
  sessions as they were; and a writer whose channel has not been closed does not reach
  its deferred \<^verbatim>\<open>Disconnect\<close>.
\<close>

theorem teardown_never_happens:
  "reader ds st = None
   \<and> (case reader_run ds st of
        Proceed st1 \<Rightarrow> cache st1 = cache st
      | Parked st1 \<Rightarrow> cache st1 = cache st
      | Panicked \<Rightarrow> True)
   \<and> (\<forall>ns st2. cache st nid = Some ns \<and> \<not> RequestChClosed ns
         \<longrightarrow> writer env nid st \<noteq> Proceed st2)"
proof -
  have "reader ds st = None"
    using reader_Some_False by (cases "reader ds st") auto
  moreover have "case reader_run ds st of
                   Proceed st1 \<Rightarrow> cache st1 = cache st
                 | Parked st1 \<Rightarrow> cache st1 = cache st
                 | Panicked \<Rightarrow> True"
    by (auto split: progress.splits dest: reader_run_cache reader_run_cache_parked)
  moreover have "\<forall>ns st2. cache st nid = Some ns \<and> \<not> RequestChClosed ns
                   \<longrightarrow> writer env nid st \<noteq> Proceed st2"
    using writer_open_never_ends by blast
  ultimately show ?thesis by blast
qed

theorem teardown_never_happens_witness:
  "reader [] ex_state = None
   \<and> reader_run [] ex_state = Proceed ex_state
   \<and> cache ex_state ''nA'' = Some ex_session \<and> \<not> RequestChClosed ex_session
   \<and> writer (ex_env True) ''nA'' ex_state = Parked ex_state
   \<and> Connected ex_session"
proof -
  have a: "cache ex_state ''nA'' = Some ex_session \<and> \<not> RequestChClosed ex_session"
    by (simp add: ex_state_def ex_session_def)
  have b: "writer (ex_env True) ''nA'' ex_state = Parked ex_state"
    by (simp add: ex_state_def ex_session_def)
  from a b teardown_never_happens [of "[]" ex_state "''nA''" "ex_env True"]
  show ?thesis by (simp add: ex_session_def)
qed

subsection \<open>Handshake\<close>

text \<open>
  Claim C3. The claim asks for status 400 on a malformed handshake. The handler has
  written and flushed status 200 before it decodes the handshake, so the status the
  companion sees is 200; the handler returns with no writer spawned, no session touched
  and no request written.
\<close>

theorem malformed_handshake_status:
  "\<exists>st1. Bridge qcap addr (Inl err) ds (st\<lparr>w := fresh_writer\<rparr>) = Some (Returned st1)
     \<and> status (w st1) = Some 200
     \<and> writers st1 = writers st
     \<and> cache st1 = cache st
     \<and> attempts st1 = attempts st"
  by (simp add: Bridge_def handshake_def EncodeError_def Write_def Flush_def WriteHeader_def
        fresh_writer_def)

text \<open>
  Claim C9, as stated: a handshake that declares the known node \<open>nA\<close> with version 2.51
  would store 2.51. The stored version is still 2.50.
\<close>

theorem known_node_metadata_counterexample:
  "(case handshake 16 ''10.0.0.2:5000'' (Inr ex_redeclared) ex_state of
      Established st \<Rightarrow> map_option (NodeVersion \<circ> Node) (cache st ''nA'') = Some ''2.50''
    | Returned st \<Rightarrow> False
    | NilNode \<Rightarrow> False)"
  by (simp add: handshake_def ex_redeclared_def ex_state_def ex_session_def FindNodeSession_def
        Connect_def AttachSessions_def)

text \<open>
  Claim C9, amended. When a handshake declares a node whose id is known, the session found
  is attached and connected and keeps the node record it has; the declared node-info is
  not stored. Only on first sight (and with a non-empty id) is a session created, with the
  declared node-info as its node record.
\<close>

theorem known_node_keeps_metadata:
  "(cache st (NodeId node) = Some ns \<longrightarrow>
      connect_nodes qcap ss addr [Some node] st
        = Established (st\<lparr>cache := (cache st)(NodeId node \<mapsto> Connect addr (AttachSessions ss ns)),
                           writers := writers st @ [NodeId node]\<rparr>)
      \<and> Node (Connect addr (AttachSessions ss ns)) = Node ns)
   \<and> (cache st (NodeId node) = None \<and> NodeId node \<noteq> [] \<longrightarrow>
      (\<exists>ns1. connect_nodes qcap ss addr [Some node] st
        = Established (st\<lparr>cache := (cache st)(NodeId node \<mapsto> ns1),
                           writers := writers st @ [NodeId node]\<rparr>)
        \<and> Node ns1 = node))"
  by (auto simp: FindNodeSession_def CreateNodeSession_def Connect_def AttachSessions_def)

theorem known_node_keeps_metadata_witness:
  "(\<exists>st1. connect_nodes 16 [''10000001''] ''10.0.0.2:5000''
            [Some \<lparr>NodeId = ''nA'', NodeName = ''erigon'', NodeVersion = ''2.51''\<rparr>] ex_state
          = Established st1
        \<and> map_option Node (cache st1 ''nA'')
            = Some \<lparr>NodeId = ''nA'', NodeName = ''erigon'', NodeVersion = ''2.50''\<rparr>)
   \<and> (\<exists>st1. connect_nodes 16 [''10000001''] ''10.0.0.2:5000''
            [Some \<lparr>NodeId = ''nB'', NodeName = ''erigon'', NodeVersion = ''2.51''\<rparr>] ex_state
          = Established st1
        \<and> map_option Node (cache st1 ''nB'')
            = Some \<lparr>NodeId = ''nB'', NodeName = ''erigon'', NodeVersion = ''2.51''\<rparr>)"
proof -
  have a: "cache ex_state (NodeId \<lparr>NodeId = ''nA'', NodeName = ''erigon'', NodeVersion = ''2.51''\<rparr>)
             = Some ex_session"
    by (simp add: ex_state_def)
  have b: "cache ex_state (NodeId \<lparr>NodeId = ''nB'', NodeName = ''erigon'', NodeVersion = ''2.51''\<rparr>)
             = None
           \<and> NodeId \<lparr>NodeId = ''nB'', NodeName = ''erigon'', NodeVersion = ''2.51''\<rparr> \<noteq> []"
    by (simp add: ex_state_def)
  from a known_node_keeps_metadata
         [of ex_state "\<lparr>NodeId = ''nA'', NodeName = ''erigon'', NodeVersion = ''2.51''\<rparr>"
             ex_session 16 "[''10000001'']" "''10.0.0.2:5000''"]
  have 1: "\<exists>st1. connect_nodes 16 [''10000001''] ''10.0.0.2:5000''
            [Some \<lparr>NodeId = ''nA'', NodeName = ''erigon'', NodeVersion = ''2.51''\<rparr>] ex_state
          = Established st1
        \<and> map_option Node (cache st1 ''nA'')
            = Some \<lparr>NodeId = ''nA'', NodeName = ''erigon'', NodeVersion = ''2.50''\<rparr>"
    by (simp add: ex_session_def)
  from b known_node_keeps_metadata
         [of ex_state "\<lparr>NodeId = ''nB'', NodeName = ''erigon'', NodeVersion = ''2.51''\<rparr>"
             ex_session 16 "[''10000001'']" "''10.0.0.2:5000''"]
  have 2: "\<exists>st1. connect_nodes 16 [''10000001''] ''10.0.0.2:5000''
            [Some \<lparr>NodeId = ''nB'', NodeName = ''erigon'', NodeVersion = ''2.51''\<rparr>] ex_state
          = Established st1
        \<and> map_option Node (cache st1 ''nB'')
            = Some \<lparr>NodeId = ''nB'', NodeName = ''erigon'', NodeVersion = ''2.51''\<rparr>"
    by auto
  from 1 2 show ?thesis by blast
qed

subsection \<open>The writer\<close>

text \<open>
  Claim C10. When marshalling the request at the head of the channel fails, the sink of
  that request receives one terminal error response; \<^verbatim>\<open>requestMap\<close> is as it was, nothing
  is written, and the request is not put back on the channel (so its retry counter is
  never incremented); the loop goes on with the rest of the channel. The send completes
  when the sink has room.
\<close>

theorem marshal_failure_terminal:
  assumes "marshal env (Request request) = Inl err"
    and "0 < room (sinks st (Responses request))"
    and "cache st nid = Some ns"
    and "RequestCh ns = request # rest"
  shows "\<exists>st1. writer_body env nid request
                  (st\<lparr>cache := (cache st)(nid \<mapsto> ns\<lparr>RequestCh := rest\<rparr>)\<rparr>) = Proceed st1
           \<and> delivered (sinks st1 (Responses request))
               = delivered (sinks st (Responses request))
                 @ [\<lparr>Id = [], Chunk = None,
                     Error = Some \<lparr>Message = ''Failed to marshal request: '' @ err\<rparr>,
                     Last = True\<rparr>]
           \<and> requestMap st1 = requestMap st
           \<and> attempts st1 = attempts st
           \<and> w st1 = w st
           \<and> cache st1 = (cache st)(nid \<mapsto> ns\<lparr>RequestCh := rest\<rparr>)
           \<and> writer env nid st = writer env nid st1"
  using assms by (simp add: writer_body_def send_def)

theorem marshal_failure_terminal_witness:
  "\<exists>st1. writer_body (ex_env False) ''nA'' (ex_request ''q4'' 4) ex_state = Proceed st1
           \<and> delivered (sinks st1 4)
               = [\<lparr>Id = [], Chunk = None,
                   Error = Some \<lparr>Message = ''Failed to marshal request: unsupported type''\<rparr>,
                   Last = True\<rparr>]
           \<and> requestMap st1 ''q4'' = None
           \<and> map_option RequestCh (cache st1 ''nA'') = Some []
           \<and> writer (ex_env False) ''nA''
                (ex_state\<lparr>cache := [''nA'' \<mapsto> ex_session\<lparr>RequestCh := [ex_request ''q4'' 4]\<rparr>]\<rparr>)
               = Parked st1"
proof -
  let ?ns = "ex_session\<lparr>RequestCh := [ex_request ''q4'' 4]\<rparr>"
  let ?st = "ex_state\<lparr>cache := [''nA'' \<mapsto> ?ns]\<rparr>"
  have a: "marshal (ex_env False) (Request (ex_request ''q4'' 4)) = Inl ''unsupported type''"
    by (simp add: ex_env_def)
  have b: "0 < room (sinks ?st (Responses (ex_request ''q4'' 4)))"
    by (simp add: ex_state_def)
  have c: "cache ?st ''nA'' = Some ?ns" by simp
  have d: "RequestCh ?ns = ex_request ''q4'' 4 # []" by simp
  have e: "?st\<lparr>cache := (cache ?st)(''nA'' \<mapsto> ?ns\<lparr>RequestCh := []\<rparr>)\<rparr> = ex_state"
    by (simp add: ex_state_def ex_session_def)
  from marshal_failure_terminal [OF a b c d]
  obtain st1 where s:
    "writer_body (ex_env False) ''nA'' (ex_request ''q4'' 4) ex_state = Proceed st1"
    "delivered (sinks st1 (Responses (ex_request ''q4'' 4)))
       = delivered (sinks ?st (Responses (ex_request ''q4'' 4)))
         @ [\<lparr>Id = [], Chunk = None,
             Error = Some \<lparr>Message = ''Failed to marshal request: '' @ ''unsupported type''\<rparr>,
             Last = True\<rparr>]"
    "requestMap st1 = requestMap ?st"
    "cache st1 = (cache ?st)(''nA'' \<mapsto> ?ns\<lparr>RequestCh := []\<rparr>)"
    "writer (ex_env False) ''nA'' ?st = writer (ex_env False) ''nA'' st1"
    unfolding e by blast
  have "writer (ex_env False) ''nA'' st1 = Parked st1"
    using s(4) by (simp add: ex_session_def)
  with s show ?thesis
    by (simp add: ex_request_def ex_state_def)
qed

text \<open>
  Claim C4. The claim asks for a terminal event for every request, also when a write
  fails and the channel is full. In the code a request whose write has failed with
  retries left, and which finds the channel full, is dropped: the iteration ends with the
  entry deleted, the channel and every sink as they were, so the request is held nowhere
  and its sink has received nothing.
\<close>

theorem full_queue_drops_request:
  assumes "marshal env (Request request) = Inr bytes"
    and "transport env (attempts st) = Some err"
    and "Retries request + 1 < 15"
    and "cache st nid = Some ns"
    and "\<not> RequestChClosed ns"
    and "RequestChCap ns \<le> length (RequestCh ns)"
  shows "writer_body env nid request st
           = Proceed (st\<lparr>requestMap := (requestMap st)(ReqId (Request request) := None),
                         attempts := attempts st + 1\<rparr>)"
  using assms by (simp add: writer_body_def try_enqueue_def Let_def)

theorem full_queue_drops_request_witness:
  "writer_body (ex_env True) ''nA'' (ex_request ''q4'' 4) ex_full_state
     = Proceed (ex_full_state\<lparr>requestMap := (requestMap ex_full_state)(''q4'' := None),
                              attempts := 1\<rparr>)
   \<and> delivered (sinks ex_full_state 4) = []
   \<and> requestMap ex_full_state ''q4'' = None
   \<and> map_option RequestCh (cache ex_full_state ''nA'') = Some [ex_request ''q3'' 3]"
proof -
  have "writer_body (ex_env True) ''nA'' (ex_request ''q4'' 4) ex_full_state
          = Proceed (ex_full_state
              \<lparr>requestMap := (requestMap ex_full_state)
                               (ReqId (Request (ex_request ''q4'' 4)) := None),
               attempts := attempts ex_full_state + 1\<rparr>)"
    by (rule full_queue_drops_request
              [where bytes = "''q4''" and err = "''broken pipe''"
                 and ns = "ex_session\<lparr>RequestCh := [ex_request ''q3'' 3], RequestChCap := 1\<rparr>"])
       (simp_all add: ex_env_def ex_request_def ex_full_state_def ex_state_def ex_session_def)
  then show ?thesis
    by (simp add: ex_request_def ex_full_state_def ex_state_def ex_session_def)
qed

subsection \<open>Order of delivery\<close>














subsection \<open>Back-pressure\<close>

text \<open>
  Claim C5, as stated: a blocked reader of the sink of \<open>q1\<close> would not delay the delivery
  or the termination of \<open>q2\<close>. With sink 1 full the loop is parked at the response for
  \<open>q1\<close>; the last response for \<open>q2\<close>, which comes next, is not delivered and the entry
  of \<open>q2\<close> stays, although sink 2 has room. With room in sink 1 the same decodes deliver
  it and delete the entry.
\<close>

theorem blocked_sink_counterexample:
  "reader_run ex_two ex_blocked_state = Parked ex_blocked_state
   \<and> delivered (sinks ex_blocked_state 2) = []
   \<and> room (sinks ex_blocked_state 2) = 2
   \<and> requestMap ex_blocked_state ''q2'' = Some (ex_request ''q2'' 2)
   \<and> (case reader_run ex_two ex_state of
        Proceed st1 \<Rightarrow>
          delivered (sinks st1 2) = [ex_chunk ''q2'' True] \<and> requestMap st1 ''q2'' = None
      | Parked st1 \<Rightarrow> False
      | Panicked \<Rightarrow> False)"
  by (simp add: ex_two_def ex_blocked_state_def ex_state_def ex_chunk_def ex_request_def
        reader_body_def send_def promote_def)

text \<open>
  Claim C5, amended. Delivery is serial on the connection: the read loop sends each
  response to the sink of its request with a blocking send before it decodes the next
  one. A response for a request whose sink has no room parks the loop in the state it is
  in, and no later response of any request on the connection is delivered, and no later
  entry deleted, until that sink is read.
\<close>

theorem blocked_sink_parks_read_loop:
  assumes "requestMap st (Id a) = Some request"
    and "room (sinks st (Responses request)) = 0"
  shows "reader_run (Decoded a # ds) st = Parked st"
  using assms by (simp add: reader_body_def send_def)

theorem blocked_sink_parks_read_loop_witness:
  "reader_run (Decoded (ex_chunk ''q1'' False) # [Decoded (ex_chunk ''q2'' True)])
     ex_blocked_state = Parked ex_blocked_state"
proof -
  have a: "requestMap ex_blocked_state (Id (ex_chunk ''q1'' False)) = Some (ex_request ''q1'' 1)"
    by (simp add: ex_blocked_state_def ex_state_def ex_chunk_def)
  have b: "room (sinks ex_blocked_state (Responses (ex_request ''q1'' 1))) = 0"
    by (simp add: ex_blocked_state_def ex_state_def ex_request_def)
  from blocked_sink_parks_read_loop [OF a b] show ?thesis .
qed

subsection \<open>Retries\<close>








end
